theory Spec2Isabelle
  imports Main
begin

section \<open>Python values, exceptions and the log\<close>

text \<open>
  The five functions of the repository (\<open>register_user\<close>, \<open>create_poll\<close>,
  \<open>fetch_polls\<close>, \<open>vote_on_poll\<close>, \<open>get_poll_results\<close>) each build one HTTP request,
  hand it to the \<open>requests\<close> library and inspect the response. They are embedded as
  functions of their arguments and of the transport \<open>send\<close>, which stands for
  \<open>requests.post\<close> / \<open>requests.get\<close>: it maps the request to the exception the library
  raised or to the response it returned.

  A value decoded from JSON, or passed by a caller, is a \<open>pyval\<close>. A JSON object is an
  association list (Python's \<open>dict\<close> keeps insertion order; only membership of keys is
  ever tested). A float is a finite double \<open>m * 2 ^ e\<close>, an infinity or a NaN; the code
  never computes with one, and only whether it is zero can matter (truthiness).
\<close>

datatype pyfloat = Finite int int | PosInfinity | NegInfinity | NaN

datatype pyval =
    PNone
  | PBool bool
  | PInt int
  | PFloat pyfloat
  | PStr string
  | PList "pyval list"
  | PDict "(string \<times> pyval) list"

text \<open>
  The value interpolated at the end of a \<open>ValueError\<close> message is kept as it is: either a
  string (\<open>response.text\<close> or a literal) or the parsed JSON body, whose rendering by
  \<open>str()\<close> is not modelled. \<open>ValueError p d\<close> stands for the message \<open>p\<close> followed by
  \<open>str(d)\<close>.
\<close>

datatype detail = Text string | Parsed pyval

text \<open>
  Exceptions. \<open>JSONDecodeError\<close> is \<open>requests.exceptions.JSONDecodeError\<close>, which
  \<open>Response.json()\<close> raises (requests 2.27 and later) and which inherits both from
  \<open>RequestException\<close> and from \<open>ValueError\<close>. \<open>HTTPError\<close> is what
  \<open>raise_for_status()\<close> raises. \<open>ConnectionError\<close>, \<open>Timeout\<close> and
  \<open>OtherRequestError\<close> are raised by the transport. \<open>RequestException p e\<close> is the
  exception the functions raise themselves in their handler: the message is \<open>p\<close>
  followed by \<open>str(e)\<close> of the exception caught.
\<close>

datatype exn =
    ValueError string detail
  | TypeError
  | AttributeError
  | KeyError
  | JSONDecodeError
  | HTTPError int
  | ConnectionError
  | Timeout
  | OtherRequestError
  | RequestException string exn

fun is_RequestException :: "exn \<Rightarrow> bool" where
  "is_RequestException JSONDecodeError = True"
| "is_RequestException (HTTPError _) = True"
| "is_RequestException ConnectionError = True"
| "is_RequestException Timeout = True"
| "is_RequestException OtherRequestError = True"
| "is_RequestException (RequestException _ _) = True"
| "is_RequestException _ = False"

fun is_ValueError :: "exn \<Rightarrow> bool" where
  "is_ValueError (ValueError _ _) = True"
| "is_ValueError JSONDecodeError = True"
| "is_ValueError _ = False"

fun is_ConnectionError :: "exn \<Rightarrow> bool" where
  "is_ConnectionError ConnectionError = True"
| "is_ConnectionError _ = False"

fun is_Timeout :: "exn \<Rightarrow> bool" where
  "is_Timeout Timeout = True"
| "is_Timeout _ = False"

text \<open>
  A log record is the level and the format string as the source writes it (the
  interpolated values are not rendered). A computation yields the records it logged and
  either the exception it raised (\<open>Inl\<close>) or its value (\<open>Inr\<close>). A Python function that
  ends without \<open>return\<close>, or executes \<open>return None\<close>, yields \<open>Inr PNone\<close>.
\<close>

datatype level = INFO | WARNING | ERROR

type_synonym log = "(level \<times> string) list"

type_synonym 'a result = "log \<times> (exn + 'a)"

definition ret :: "'a \<Rightarrow> 'a result" where
  "ret v = ([], Inr v)"

definition raise :: "exn \<Rightarrow> 'a result" where
  "raise e = ([], Inl e)"

definition logger :: "level \<Rightarrow> string \<Rightarrow> unit result" where
  "logger l m = ([(l, m)], Inr ())"

definition bind :: "'a result \<Rightarrow> ('a \<Rightarrow> 'b result) \<Rightarrow> 'b result" where
  "bind m f =
     (case m of
        (l, Inl e) \<Rightarrow> (l, Inl e)
      | (l, Inr v) \<Rightarrow> (case f v of (l', r) \<Rightarrow> (l @ l', r)))"

definition seq :: "'a result \<Rightarrow> 'b result \<Rightarrow> 'b result" where
  "seq m k = bind m (\<lambda>_. k)"

text \<open>
  \<open>try: body except C1: h1 except C2: h2 ...\<close>: the first clause whose class matches
  the exception handles it; an exception no clause matches propagates.
\<close>

fun handle :: "((exn \<Rightarrow> bool) \<times> (exn \<Rightarrow> 'a result)) list \<Rightarrow> exn \<Rightarrow> 'a result" where
  "handle [] e = raise e"
| "handle ((c, h) # cs) e = (if c e then h e else handle cs e)"

definition try_except ::
  "'a result \<Rightarrow> ((exn \<Rightarrow> bool) \<times> (exn \<Rightarrow> 'a result)) list \<Rightarrow> 'a result" where
  "try_except body clauses =
     (case body of
        (l, Inl e) \<Rightarrow> (case handle clauses e of (l', r) \<Rightarrow> (l @ l', r))
      | (l, Inr v) \<Rightarrow> (l, Inr v))"

section \<open>The operations of Python the code uses\<close>

text \<open>\<open>s.rstrip('/')\<close>: every trailing occurrence of the character is removed.\<close>

definition rstrip :: "char \<Rightarrow> string \<Rightarrow> string" where
  "rstrip c s = rev (dropWhile (\<lambda>x. x = c) (rev s))"

text \<open>\<open>str(n)\<close> of an integer, as an f-string renders it.\<close>

fun str_nat :: "nat \<Rightarrow> string" where
  "str_nat n =
     (if n < 10 then [''0123456789'' ! n]
      else str_nat (n div 10) @ [''0123456789'' ! (n mod 10)])"

declare str_nat.simps [simp del]

definition str_int :: "int \<Rightarrow> string" where
  "str_int i = (if i < 0 then CHR ''-'' # str_nat (nat (- i)) else str_nat (nat i))"

text \<open>\<open>a or b\<close> on truth values: \<open>b\<close> is evaluated only when \<open>a\<close> is false.\<close>

definition py_or :: "bool \<Rightarrow> bool \<Rightarrow> bool" where
  "py_or a b = (if a then True else b)"

text \<open>Truthiness of a value (\<open>if x\<close>, \<open>not x\<close>).\<close>

fun truthy :: "pyval \<Rightarrow> bool" where
  "truthy PNone = False"
| "truthy (PBool b) = b"
| "truthy (PInt i) = (i \<noteq> 0)"
| "truthy (PFloat f) = (case f of Finite m e \<Rightarrow> m \<noteq> 0 | _ \<Rightarrow> True)"
| "truthy (PStr s) = (s \<noteq> [])"
| "truthy (PList xs) = (xs \<noteq> [])"
| "truthy (PDict kvs) = (kvs \<noteq> [])"

text \<open>
  \<open>key in v\<close> for a string \<open>key\<close>: key membership on a dict, element membership on a
  list, substring test on a string, \<open>TypeError\<close> on anything else.
\<close>

fun substring :: "string \<Rightarrow> string \<Rightarrow> bool" where
  "substring p [] = (p = [])"
| "substring p (c # cs) = (take (length p) (c # cs) = p \<or> substring p cs)"

fun py_in :: "string \<Rightarrow> pyval \<Rightarrow> bool result" where
  "py_in k (PDict kvs) = ret (k \<in> set (map fst kvs))"
| "py_in k (PList xs) = ret (PStr k \<in> set xs)"
| "py_in k (PStr s) = ret (substring k s)"
| "py_in k _ = raise TypeError"

text \<open>
  \<open>all(key in v for key in keys)\<close>: the generator is consumed from the left and stops
  at the first false test; a test that raises ends it with that exception.
\<close>

fun all_in :: "string list \<Rightarrow> pyval \<Rightarrow> bool result" where
  "all_in [] v = ret True"
| "all_in (k # ks) v = bind (py_in k v) (\<lambda>b. if b then all_in ks v else ret False)"

text \<open>\<open>v.get(key, default)\<close>: only a dict has the method.\<close>

fun py_get :: "pyval \<Rightarrow> string \<Rightarrow> pyval \<Rightarrow> pyval result" where
  "py_get (PDict kvs) k d = ret (case map_of kvs k of None \<Rightarrow> d | Some v \<Rightarrow> v)"
| "py_get _ k d = raise AttributeError"

text \<open>
  \<open>v[key]\<close> with a string key: the value on a dict (\<open>KeyError\<close> when the key is
  missing), \<open>TypeError\<close> on a list or a string (their indices are integers) and on
  anything else (not subscriptable).
\<close>

fun py_item :: "pyval \<Rightarrow> string \<Rightarrow> pyval result" where
  "py_item (PDict kvs) k = (case map_of kvs k of None \<Rightarrow> raise KeyError | Some v \<Rightarrow> ret v)"
| "py_item _ k = raise TypeError"

text \<open>\<open>len(v)\<close>.\<close>

fun py_len :: "pyval \<Rightarrow> nat result" where
  "py_len (PList xs) = ret (length xs)"
| "py_len (PStr s) = ret (length s)"
| "py_len (PDict kvs) = ret (length (remdups (map fst kvs)))"
| "py_len _ = raise TypeError"

fun is_list :: "pyval \<Rightarrow> bool" where
  "is_list (PList _) = True"
| "is_list _ = False"

fun is_dict :: "pyval \<Rightarrow> bool" where
  "is_dict (PDict _) = True"
| "is_dict _ = False"

fun is_str :: "pyval \<Rightarrow> bool" where
  "is_str (PStr _) = True"
| "is_str _ = False"

text \<open>\<open>isinstance(v, int)\<close> holds of integers and of booleans (\<open>bool\<close> is a subclass).\<close>

fun is_int :: "pyval \<Rightarrow> bool" where
  "is_int (PInt _) = True"
| "is_int (PBool _) = True"
| "is_int _ = False"

text \<open>
  The integer value and the \<open>str()\<close> of an object that passed \<open>isinstance(v, int)\<close>,
  and the characters of one that passed \<open>isinstance(v, str)\<close>. They are applied to such
  objects only; the last equation of each is never reached.
\<close>

fun int_value :: "pyval \<Rightarrow> int" where
  "int_value (PInt i) = i"
| "int_value (PBool b) = (if b then 1 else 0)"
| "int_value _ = 0"

fun int_str :: "pyval \<Rightarrow> string" where
  "int_str (PInt i) = str_int i"
| "int_str (PBool b) = (if b then ''True'' else ''False'')"
| "int_str _ = []"

fun str_value :: "pyval \<Rightarrow> string" where
  "str_value (PStr s) = s"
| "str_value _ = []"

section \<open>The requests library\<close>

text \<open>
  The library is not part of the repository. A response is what the code reads of it:
  the status code, the raw bytes (\<open>content\<close>, tested for emptiness only), the decoded
  body (\<open>response.text\<close>) and the outcome of decoding the body with \<open>response.json()\<close>
  (\<open>None\<close> when the decoder rejects the body). The decoder is Python's \<open>json\<close>, which
  accepts every JSON text and also the literals \<open>NaN\<close>, \<open>Infinity\<close> and \<open>-Infinity\<close>,
  which are not JSON.
\<close>

record response =
  status_code :: int
  content :: string
  response_text :: string
  parsed_json :: "pyval option"

datatype http_method = GET | POST

record request =
  http_method :: http_method
  url :: string
  params :: "(string \<times> int) list"
  json_payload :: "pyval option"
  headers :: "(string \<times> string) list"
  timeout :: "nat option"

type_synonym transport = "request \<Rightarrow> exn + response"

definition requests_post ::
  "transport \<Rightarrow> string \<Rightarrow> pyval \<Rightarrow> (string \<times> string) list \<Rightarrow> response result" where
  "requests_post send u payload hs =
     (case send \<lparr>http_method = POST, url = u, params = [], json_payload = Some payload,
                   headers = hs, timeout = None\<rparr> of
        Inl e \<Rightarrow> raise e
      | Inr r \<Rightarrow> ret r)"

definition requests_get ::
  "transport \<Rightarrow> string \<Rightarrow> (string \<times> int) list \<Rightarrow> (string \<times> string) list \<Rightarrow> nat option
     \<Rightarrow> response result" where
  "requests_get send u ps hs t =
     (case send \<lparr>http_method = GET, url = u, params = ps, json_payload = None,
                   headers = hs, timeout = t\<rparr> of
        Inl e \<Rightarrow> raise e
      | Inr r \<Rightarrow> ret r)"

text \<open>\<open>response.json()\<close>.\<close>

definition response_json :: "response \<Rightarrow> pyval result" where
  "response_json r = (case parsed_json r of None \<Rightarrow> raise JSONDecodeError | Some v \<Rightarrow> ret v)"

text \<open>
  Modelled from the spec: \<open>Response.raise_for_status\<close> belongs to the requests library,
  whose code is not in the repository. It is the "raise for status" convention of the
  transport: it raises \<open>HTTPError\<close> for a client error (400 to 499) or a server error
  (500 to 599) and does nothing for any other status code.
\<close>

definition raise_for_status :: "response \<Rightarrow> unit result" where
  "raise_for_status r =
     (if 400 \<le> status_code r \<and> status_code r < 600 then raise (HTTPError (status_code r))
      else ret ())"

section \<open>register\_user\<close>

definition register_user_url :: "string \<Rightarrow> string" where
  "register_user_url base_url = rstrip CHR ''/'' base_url @ ''/register''"

definition register_user :: "transport \<Rightarrow> string \<Rightarrow> string \<Rightarrow> string \<Rightarrow> pyval result" where
  "register_user send base_url username password =
     (let u = register_user_url base_url;
          payload = PDict [(''username'', PStr username), (''password'', PStr password)];
          hs = [(''Content-Type'', ''application/json'')]
      in try_except
          (bind (requests_post send u payload hs) (\<lambda>response.
           seq (logger INFO ''POST {url} - Status: {response.status_code}'')
           (if status_code response = 200 then
              bind (response_json response) (\<lambda>user_data.
              seq (py_get user_data ''username'' (PStr ''Unknown''))
             (seq (py_get user_data ''id'' (PStr ''Unknown''))
             (seq (logger INFO ''User registered successfully: {user_data.get('username', 'Unknown')} (ID: {user_data.get('id', 'Unknown')})'')
                  (ret user_data))))
            else if status_code response = 400 then
              (let error_detail = response_text response
               in seq (logger ERROR ''Registration failed - Username already exists: {error_detail}'')
                      (raise (ValueError ''Username already registered: '' (Text error_detail))))
            else if status_code response = 422 then
              bind (if content response \<noteq> []
                    then bind (response_json response) (\<lambda>v. ret (Parsed v))
                    else ret (Text ''Validation error'')) (\<lambda>error_detail.
              seq (logger ERROR ''Registration failed - Validation error: {error_detail}'')
                  (raise (ValueError ''Invalid input data: '' error_detail)))
            else
              (let error_detail = response_text response
               in seq (logger ERROR ''Unexpected response code {response.status_code}: {error_detail}'')
                 (seq (raise_for_status response)
                      (ret PNone))))))
          [(is_RequestException, \<lambda>e.
              seq (logger ERROR ''Network error during registration: {e}'')
                  (raise (RequestException ''Failed to register user: '' e)))])"

section \<open>create\_poll\<close>

definition create_poll_url :: "string \<Rightarrow> string" where
  "create_poll_url base_url = rstrip CHR ''/'' base_url @ ''/polls''"

definition create_poll ::
  "transport \<Rightarrow> string \<Rightarrow> string \<Rightarrow> string list \<Rightarrow> string \<Rightarrow> pyval result" where
  "create_poll send base_url question options access_token =
     (let u = create_poll_url base_url;
          payload = PDict [(''question'', PStr question), (''options'', PList (map PStr options))];
          hs = [(''Content-Type'', ''application/json''),
                (''Authorization'', ''Bearer '' @ access_token)]
      in try_except
          (bind (requests_post send u payload hs) (\<lambda>response.
           seq (logger INFO ''POST {url} - Status: {response.status_code} - Question: '{question}' - Options: {len(options)}'')
           (if status_code response = 200 then
              bind (response_json response) (\<lambda>poll_data.
              seq (py_get poll_data ''id'' (PStr ''Unknown''))
             (seq (py_get poll_data ''question'' (PStr ''Unknown''))
             (seq (logger INFO (''Poll created successfully: ID {poll_data.get('id', 'Unknown')} - '{poll_data.get('question', 'Unknown')}'' @ [CHR 0x27]))
             (let required_fields = [''id'', ''question'', ''created_at'', ''owner_id'', ''options'']
              in bind (all_in required_fields poll_data) (\<lambda>ok.
                 if ok then
                   bind (py_get poll_data ''options'' (PList [])) (\<lambda>opts.
                   seq (py_len opts)
                  (seq (logger INFO ''Poll has {len(poll_data.get('options', []))} options'')
                       (ret poll_data)))
                 else
                   seq (logger WARNING ''Created poll missing required fields: {missing_fields}'')
                       (ret poll_data))))))
            else if status_code response = 401 then
              (let error_detail = response_text response
               in seq (logger ERROR ''Authentication failed: {error_detail}'')
                      (raise (ValueError ''Unauthorized - Invalid or expired token: '' (Text error_detail))))
            else if status_code response = 422 then
              bind (if content response \<noteq> []
                    then bind (response_json response) (\<lambda>v. ret (Parsed v))
                    else ret (Text ''Validation error'')) (\<lambda>error_detail.
              seq (logger ERROR ''Poll creation failed - Validation error: {error_detail}'')
                  (raise (ValueError ''Invalid poll data: '' error_detail)))
            else
              (let error_detail = response_text response
               in seq (logger ERROR ''Unexpected response code {response.status_code}: {error_detail}'')
                 (seq (raise_for_status response)
                      (ret PNone))))))
          [(is_RequestException, \<lambda>e.
              seq (logger ERROR ''Network error during poll creation: {e}'')
                  (raise (RequestException ''Failed to create poll: '' e)))])"

section \<open>vote\_on\_poll\<close>

definition vote_on_poll_url :: "string \<Rightarrow> int \<Rightarrow> string" where
  "vote_on_poll_url base_url poll_id =
     rstrip CHR ''/'' base_url @ ''/polls/'' @ str_int poll_id @ ''/vote''"

definition vote_on_poll ::
  "transport \<Rightarrow> string \<Rightarrow> int \<Rightarrow> int \<Rightarrow> string \<Rightarrow> pyval result" where
  "vote_on_poll send base_url poll_id option_id access_token =
     (let u = vote_on_poll_url base_url poll_id;
          payload = PDict [(''option_id'', PInt option_id)];
          hs = [(''Content-Type'', ''application/json''),
                (''Authorization'', ''Bearer '' @ access_token)]
      in try_except
          (bind (requests_post send u payload hs) (\<lambda>response.
           seq (logger INFO ''POST {url} - Status: {response.status_code} - Poll ID: {poll_id}, Option ID: {option_id}'')
           (if status_code response = 200 then
              bind (response_json response) (\<lambda>vote_data.
              seq (py_get vote_data ''id'' (PStr ''Unknown''))
             (seq (py_get vote_data ''user_id'' (PStr ''Unknown''))
             (seq (py_get vote_data ''option_id'' (PStr ''Unknown''))
             (seq (logger INFO ''Vote cast successfully: Vote ID {vote_data.get('id', 'Unknown')} - User {vote_data.get('user_id', 'Unknown')} voted for option {vote_data.get('option_id', 'Unknown')}'')
             (let required_fields = [''id'', ''user_id'', ''option_id'', ''created_at'']
              in bind (all_in required_fields vote_data) (\<lambda>ok.
                 if ok then ret vote_data
                 else
                   seq (logger WARNING ''Vote response missing required fields: {missing_fields}'')
                       (ret vote_data)))))))
            else if status_code response = 401 then
              (let error_detail = response_text response
               in seq (logger ERROR ''Authentication failed: {error_detail}'')
                      (raise (ValueError ''Unauthorized - Invalid or expired token: '' (Text error_detail))))
            else if status_code response = 404 then
              (let error_detail = response_text response
               in seq (logger ERROR ''Poll or option not found: {error_detail}'')
                      (raise (ValueError (''Poll ID '' @ str_int poll_id @ '' or option ID ''
                                            @ str_int option_id @ '' not found: '')
                                         (Text error_detail))))
            else if status_code response = 422 then
              bind (if content response \<noteq> []
                    then bind (response_json response) (\<lambda>v. ret (Parsed v))
                    else ret (Text ''Validation error'')) (\<lambda>error_detail.
              seq (logger ERROR ''Vote failed - Validation error: {error_detail}'')
                  (raise (ValueError ''Invalid vote data: '' error_detail)))
            else
              (let error_detail = response_text response
               in seq (logger ERROR ''Unexpected response code {response.status_code}: {error_detail}'')
                 (seq (raise_for_status response)
                      (ret PNone))))))
          [(is_RequestException, \<lambda>e.
              seq (logger ERROR ''Network error during voting: {e}'')
                  (raise (RequestException ''Failed to cast vote: '' e)))])"

section \<open>fetch\_polls\<close>

definition fetch_polls_url :: "string \<Rightarrow> string" where
  "fetch_polls_url base_url = rstrip CHR ''/'' base_url @ ''/polls''"

text \<open>
  The loop over the decoded list: an item that lacks a required key is reported with a
  warning (which calls \<open>poll.get\<close>), and the loop goes on.
\<close>

fun check_polls :: "pyval list \<Rightarrow> unit result" where
  "check_polls [] = ret ()"
| "check_polls (poll # polls) =
     seq (bind (all_in [''id'', ''question'', ''created_at'', ''owner_id'', ''options''] poll) (\<lambda>ok.
          if \<not> ok then
            seq (py_get poll ''id'' (PStr ''Unknown''))
                (logger WARNING ''Poll {poll.get('id', 'Unknown')} missing required fields'')
          else ret ()))
         (check_polls polls)"

definition fetch_polls :: "transport \<Rightarrow> string \<Rightarrow> int \<Rightarrow> int \<Rightarrow> pyval result" where
  "fetch_polls send base_url skip limit =
     (let u = fetch_polls_url base_url;
          ps = [(''skip'', skip), (''limit'', limit)]
      in try_except
          (bind (requests_get send u ps [] None) (\<lambda>response.
           seq (logger INFO ''GET {url} - Status: {response.status_code} - Params: skip={skip}, limit={limit}'')
           (if status_code response = 200 then
              bind (response_json response) (\<lambda>polls_data.
              seq (py_len polls_data)
             (seq (logger INFO ''Successfully fetched {len(polls_data)} polls'')
             (case polls_data of
                PList polls \<Rightarrow> seq (check_polls polls) (ret polls_data)
              | _ \<Rightarrow>
                seq (logger ERROR ''Unexpected response format: expected list, got {type(polls_data)}'')
                    (raise (ValueError ''Invalid response format: expected list of polls'' (Text []))))))
            else if status_code response = 422 then
              bind (if content response \<noteq> []
                    then bind (response_json response) (\<lambda>v. ret (Parsed v))
                    else ret (Text ''Validation error'')) (\<lambda>error_detail.
              seq (logger ERROR ''Invalid query parameters: {error_detail}'')
                  (raise (ValueError ''Invalid pagination parameters: '' error_detail)))
            else
              (let error_detail = response_text response
               in seq (logger ERROR ''Unexpected response code {response.status_code}: {error_detail}'')
                 (seq (raise_for_status response)
                      (ret PNone))))))
          [(is_RequestException, \<lambda>e.
              seq (logger ERROR ''Network error while fetching polls: {e}'')
                  (raise (RequestException ''Failed to fetch polls: '' e)))])"

section \<open>get\_poll\_results\<close>

text \<open>
  The arguments \<open>poll_id\<close> and \<open>base_url\<close> are arbitrary Python values here, because the
  function itself tests their types; \<open>access_token\<close> is \<open>Optional[str]\<close>.
\<close>

definition get_poll_results_url :: "string \<Rightarrow> pyval \<Rightarrow> string" where
  "get_poll_results_url base_url poll_id =
     rstrip CHR ''/'' base_url @ ''/polls/'' @ int_str poll_id"

text \<open>The test of the loop over \<open>poll_data['options']\<close>.\<close>

fun bad_option :: "pyval \<Rightarrow> bool" where
  "bad_option (PDict kvs) =
     py_or (''id'' \<notin> set (map fst kvs)) (''text'' \<notin> set (map fst kvs))"
| "bad_option _ = True"

definition get_poll_results ::
  "transport \<Rightarrow> pyval \<Rightarrow> pyval \<Rightarrow> string option \<Rightarrow> pyval result" where
  "get_poll_results send base_url poll_id access_token =
     (if py_or (\<not> is_int poll_id) (int_value poll_id \<le> 0) then
        seq (logger ERROR ''Invalid poll_id: {poll_id}. Must be a positive integer.'')
            (ret PNone)
      else if py_or (\<not> truthy base_url) (\<not> is_str base_url) then
        seq (logger ERROR ''Invalid base_url: {base_url}. Must be a non-empty string.'')
            (ret PNone)
      else
       (let u = get_poll_results_url (str_value base_url) poll_id;
            hs = [(''Content-Type'', ''application/json''), (''Accept'', ''application/json'')];
            hs = (case access_token of
                    None \<Rightarrow> hs
                  | Some t \<Rightarrow> if t \<noteq> [] then hs @ [(''Authorization'', ''Bearer '' @ t)] else hs)
        in seq (logger INFO ''Retrieving poll results for poll_id: {poll_id}'')
          (try_except
            (bind (requests_get send u [] hs (Some 30)) (\<lambda>response.
             seq (logger INFO ''Request URL: {url}'')
            (seq (logger INFO ''Response status code: {response.status_code}'')
            (if status_code response = 200 then
               try_except
                 (bind (response_json response) (\<lambda>poll_data.
                  let required_fields = [''id'', ''question'', ''options'', ''created_at'', ''user_id'']
                  in bind (all_in required_fields poll_data) (\<lambda>ok.
                     if \<not> ok then
                       seq (logger ERROR ''Invalid response structure. Missing required fields.'')
                           (ret PNone)
                     else
                       bind (py_item poll_data ''options'') (\<lambda>opts.
                       case opts of
                         PList os \<Rightarrow>
                           if list_ex bad_option os then
                             seq (logger ERROR ''Invalid option structure in response'')
                                 (ret PNone)
                           else
                             seq (logger INFO ''Successfully retrieved poll results for poll_id: {poll_id}'')
                            (seq (py_item poll_data ''question'')
                            (seq (logger INFO ''Poll question: {poll_data['question']}'')
                            (seq (bind (py_item poll_data ''options'') py_len)
                            (seq (logger INFO ''Number of options: {len(poll_data['options'])}'')
                                 (ret poll_data)))))
                       | _ \<Rightarrow>
                           seq (logger ERROR ''Invalid options format in response'')
                               (ret PNone)))))
                 [(is_ValueError, \<lambda>e.
                     seq (logger ERROR ''Failed to parse JSON response: {e}'')
                         (ret PNone))]
             else if status_code response = 401 then
               seq (logger ERROR ''Authentication failed. Invalid or expired access token.'')
                   (ret PNone)
             else if status_code response = 404 then
               seq (logger ERROR ''Poll with ID {poll_id} not found.'')
                   (ret PNone)
             else if status_code response = 422 then
               seq (logger ERROR ''Validation error: {response.text}'')
                   (ret PNone)
             else
               seq (logger ERROR ''Unexpected response code {response.status_code}: {response.text}'')
                   (ret PNone)))))
            [(is_ConnectionError, \<lambda>e.
                seq (logger ERROR ''Failed to connect to the API at {base_url}'')
                    (ret PNone)),
             (is_Timeout, \<lambda>e.
                seq (logger ERROR ''Request timed out'')
                    (ret PNone)),
             (is_RequestException, \<lambda>e.
                seq (logger ERROR ''Request failed: {e}'')
                    (ret PNone))])))"

section \<open>Properties\<close>

text \<open>
  In the theorems the transport is \<open>\<lambda>_. Inr r\<close>: whatever request is sent, the server
  answers with the response \<open>r\<close>. The outcome of a call is the second component of its
  result: \<open>Inr v\<close> when the function returns \<open>v\<close> (\<open>Inr PNone\<close> when it returns
  \<open>None\<close>), \<open>Inl e\<close> when it raises \<open>e\<close>. The specification's \<open>Success(value)\<close>
  is a returned body; its \<open>Failure(kind, detail)\<close> is a raised \<open>ValueError\<close> or
  \<open>RequestException\<close> in the four functions that raise, and a returned \<open>None\<close> in
  \<open>get_poll_results\<close>.
\<close>

lemmas run_defs = ret_def raise_def logger_def bind_def seq_def try_except_def
  requests_post_def requests_get_def response_json_def raise_for_status_def

subsection \<open>Auxiliary facts\<close>

lemma dropWhile_replicate_append:
  "dropWhile (\<lambda>x. x = c) (replicate n c @ xs) = dropWhile (\<lambda>x. x = c) xs"
  by (induction n) simp_all

lemma rstrip_append_replicate: "rstrip c (b @ replicate n c) = rstrip c b"
  by (simp add: rstrip_def dropWhile_replicate_append)

lemma all_in_dict: "all_in ks (PDict kvs) = ([], Inr (set ks \<subseteq> set (map fst kvs)))"
  by (induction ks) (simp_all add: run_defs)

lemma check_polls_dicts: "list_all is_dict polls \<Longrightarrow> snd (check_polls polls) = Inr ()"
proof (induction polls)
  case Nil
  then show ?case by (simp add: run_defs)
next
  case (Cons p ps)
  then obtain kvs where p: "p = PDict kvs" by (cases p) simp_all
  from Cons have "snd (check_polls ps) = Inr ()" by simp
  then obtain l where "check_polls ps = (l, Inr ())" by (cases "check_polls ps") simp
  then show ?case by (simp add: p all_in_dict run_defs)
qed

lemma fetch_polls_list_of_dicts:
  assumes "status_code r = 200" and "parsed_json r = Some (PList polls)"
    and "list_all is_dict polls"
  shows "snd (fetch_polls (\<lambda>_. Inr r) base_url skip limit) = Inr (PList polls)"
proof -
  from assms(3) obtain l where "check_polls polls = (l, Inr ())"
    using check_polls_dicts by (cases "check_polls polls") fastforce
  with assms(1,2) show ?thesis by (simp add: fetch_polls_def run_defs)
qed

subsection \<open>The claims\<close>

text \<open>
  Claim C6. In \<open>vote_on_poll\<close>, every response with status 404 raises the not-found
  \<open>ValueError\<close>, whose detail is the text of the response body.
\<close>

theorem vote_on_poll_404:
  "status_code r = 404 \<Longrightarrow>
   snd (vote_on_poll (\<lambda>_. Inr r) base_url poll_id option_id access_token) =
     Inl (ValueError (''Poll ID '' @ str_int poll_id @ '' or option ID '' @ str_int option_id
                        @ '' not found: '')
                     (Text (response_text r)))"
  by (simp add: vote_on_poll_def run_defs)

text \<open>The scenario of the specification: status 404, body text "Poll or option not found".\<close>

theorem vote_on_poll_404_witness:
  "snd (vote_on_poll
          (\<lambda>_. Inr \<lparr>status_code = 404, content = ''Poll or option not found'',
                     response_text = ''Poll or option not found'', parsed_json = None\<rparr>)
          ''http://localhost:8000'' 1 2 ''your_jwt_token_here'') =
     Inl (ValueError ''Poll ID 1 or option ID 2 not found: '' (Text ''Poll or option not found''))"
  using vote_on_poll_404 [of "\<lparr>status_code = 404, content = ''Poll or option not found'',
                     response_text = ''Poll or option not found'', parsed_json = None\<rparr>"
          "''http://localhost:8000''" 1 2 "''your_jwt_token_here''"]
  by (simp add: str_int_def str_nat.simps)

text \<open>
  Claim C7. For every response with status 401, \<open>vote_on_poll\<close> and \<open>create_poll\<close> raise
  the same unauthorized \<open>ValueError\<close>, with the text of the response body as detail,
  whatever their other arguments are.
\<close>

theorem unauthorized_uniform:
  "status_code r = 401 \<Longrightarrow>
     snd (vote_on_poll (\<lambda>_. Inr r) base_url poll_id option_id access_token) =
       Inl (ValueError ''Unauthorized - Invalid or expired token: '' (Text (response_text r)))
   \<and> snd (create_poll (\<lambda>_. Inr r) base_url' question options access_token') =
       Inl (ValueError ''Unauthorized - Invalid or expired token: '' (Text (response_text r)))"
  by (simp add: vote_on_poll_def create_poll_def run_defs)

theorem unauthorized_uniform_witness:
  "snd (vote_on_poll
          (\<lambda>_. Inr \<lparr>status_code = 401, content = ''Not authenticated'',
                     response_text = ''Not authenticated'', parsed_json = None\<rparr>)
          ''http://localhost:8000'' 1 2 ''expired'') =
     Inl (ValueError ''Unauthorized - Invalid or expired token: '' (Text ''Not authenticated''))
   \<and> snd (create_poll
          (\<lambda>_. Inr \<lparr>status_code = 401, content = ''Not authenticated'',
                     response_text = ''Not authenticated'', parsed_json = None\<rparr>)
          ''http://localhost:8000/'' ''Q'' [''A'', ''B''] ''expired'') =
     Inl (ValueError ''Unauthorized - Invalid or expired token: '' (Text ''Not authenticated''))"
  using unauthorized_uniform [of "\<lparr>status_code = 401, content = ''Not authenticated'',
                     response_text = ''Not authenticated'', parsed_json = None\<rparr>"
          "''http://localhost:8000''" 1 2 "''expired''"
          "''http://localhost:8000/''" "''Q''" "[''A'', ''B'']" "''expired''"]
  by simp

text \<open>
  Claim C9. In \<open>register_user\<close>, \<open>create_poll\<close>, \<open>fetch_polls\<close> and \<open>vote_on_poll\<close>, a
  response whose status code is below 400 and is not 200 (the only enumerated code below
  400) reaches the catch-all branch, where \<open>raise_for_status\<close> does not raise, and the
  function returns \<open>None\<close>, whatever the body is.
\<close>

theorem fall_through_returns_None:
  "status_code r < 400 \<Longrightarrow> status_code r \<noteq> 200 \<Longrightarrow>
     snd (register_user (\<lambda>_. Inr r) base_url username password) = Inr PNone
   \<and> snd (create_poll (\<lambda>_. Inr r) base_url question options access_token) = Inr PNone
   \<and> snd (fetch_polls (\<lambda>_. Inr r) base_url skip limit) = Inr PNone
   \<and> snd (vote_on_poll (\<lambda>_. Inr r) base_url poll_id option_id access_token) = Inr PNone"
  by (simp add: register_user_def create_poll_def fetch_polls_def vote_on_poll_def run_defs)

theorem fall_through_returns_None_witness:
  "snd (register_user
          (\<lambda>_. Inr \<lparr>status_code = 201, content = ''{}'', response_text = ''{}'',
                     parsed_json = Some (PDict [])\<rparr>)
          ''http://localhost:8000'' ''john_doe'' ''secure_password123'') = Inr PNone
   \<and> snd (create_poll
          (\<lambda>_. Inr \<lparr>status_code = 201, content = ''{}'', response_text = ''{}'',
                     parsed_json = Some (PDict [])\<rparr>)
          ''http://localhost:8000'' ''Q'' [''A'', ''B''] ''token'') = Inr PNone
   \<and> snd (fetch_polls
          (\<lambda>_. Inr \<lparr>status_code = 201, content = ''{}'', response_text = ''{}'',
                     parsed_json = Some (PDict [])\<rparr>)
          ''http://localhost:8000'' 0 10) = Inr PNone
   \<and> snd (vote_on_poll
          (\<lambda>_. Inr \<lparr>status_code = 201, content = ''{}'', response_text = ''{}'',
                     parsed_json = Some (PDict [])\<rparr>)
          ''http://localhost:8000'' 1 2 ''token'') = Inr PNone"
  using fall_through_returns_None [of "\<lparr>status_code = 201, content = ''{}'',
                     response_text = ''{}'', parsed_json = Some (PDict [])\<rparr>"
          "''http://localhost:8000''" "''john_doe''" "''secure_password123''"
          "''Q''" "[''A'', ''B'']" "''token''" 0 10 1 2]
  by simp

text \<open>
  Claim C2, as stated, fails on a body that is not valid JSON but that the decoder
  accepts: \<open>{"id": NaN}\<close> is decoded to a dict, and \<open>register_user\<close> returns it as
  its success value.
\<close>

theorem lenient_decoder_counterexample:
  \<open>snd (register_user
          (\<lambda>_. Inr \<lparr>status_code = 200, content = ''{"id": NaN}'',
                     response_text = ''{"id": NaN}'',
                     parsed_json = Some (PDict [(''id'', PFloat NaN)])\<rparr>)
          ''http://localhost:8000'' ''john_doe'' ''secure_password123'') =
     Inr (PDict [(''id'', PFloat NaN)])\<close>
  by (simp add: register_user_def run_defs)

text \<open>
  Claim C2, amended. A response with status 200 whose body the decoder rejects
  (\<open>response.json()\<close> raises) never yields the body: in the four raising functions the
  exception is raised inside the \<open>try\<close>, the handler for \<open>RequestException\<close> catches it
  and raises the function's own \<open>RequestException\<close> with the parse error as detail;
  \<open>get_poll_results\<close> catches it as a \<open>ValueError\<close> and returns \<open>None\<close>.
\<close>

theorem rejected_body_200_is_failure:
  "status_code r = 200 \<Longrightarrow> parsed_json r = None \<Longrightarrow>
     snd (register_user (\<lambda>_. Inr r) base_url username password) =
       Inl (RequestException ''Failed to register user: '' JSONDecodeError)
   \<and> snd (create_poll (\<lambda>_. Inr r) base_url question options access_token) =
       Inl (RequestException ''Failed to create poll: '' JSONDecodeError)
   \<and> snd (fetch_polls (\<lambda>_. Inr r) base_url skip limit) =
       Inl (RequestException ''Failed to fetch polls: '' JSONDecodeError)
   \<and> snd (vote_on_poll (\<lambda>_. Inr r) base_url poll_id option_id access_token) =
       Inl (RequestException ''Failed to cast vote: '' JSONDecodeError)
   \<and> snd (get_poll_results (\<lambda>_. Inr r) results_base_url results_poll_id token) = Inr PNone"
  by (simp add: register_user_def create_poll_def fetch_polls_def vote_on_poll_def
      get_poll_results_def run_defs Let_def)

theorem rejected_body_200_is_failure_witness:
  "snd (register_user
          (\<lambda>_. Inr \<lparr>status_code = 200, content = ''<html>Bad Gateway</html>'',
                     response_text = ''<html>Bad Gateway</html>'', parsed_json = None\<rparr>)
          ''http://localhost:8000'' ''john_doe'' ''secure_password123'') =
     Inl (RequestException ''Failed to register user: '' JSONDecodeError)
   \<and> snd (get_poll_results
          (\<lambda>_. Inr \<lparr>status_code = 200, content = ''<html>Bad Gateway</html>'',
                     response_text = ''<html>Bad Gateway</html>'', parsed_json = None\<rparr>)
          (PStr ''http://localhost:8000'') (PInt 1) None) = Inr PNone"
  using rejected_body_200_is_failure
    [where r = "\<lparr>status_code = 200, content = ''<html>Bad Gateway</html>'',
                response_text = ''<html>Bad Gateway</html>'', parsed_json = None\<rparr>"
       and base_url = "''http://localhost:8000''" and username = "''john_doe''"
       and password = "''secure_password123''"
       and results_base_url = "PStr ''http://localhost:8000''"
       and results_poll_id = "PInt 1" and token = None]
  by simp

text \<open>
  Claim C5, as stated, fails on its own example: a body \<open>{}\<close> is two bytes, so
  \<open>response.content\<close> is not empty, the body is parsed, and the detail of the
  \<open>ValueError\<close> is the empty object, not the sentinel.
\<close>

theorem validation_empty_object_counterexample:
  "snd (register_user
          (\<lambda>_. Inr \<lparr>status_code = 422, content = ''{}'', response_text = ''{}'',
                     parsed_json = Some (PDict [])\<rparr>)
          ''http://localhost:8000'' ''john_doe'' ''secure_password123'') =
     Inl (ValueError ''Invalid input data: '' (Parsed (PDict [])))
   \<and> snd (register_user
          (\<lambda>_. Inr \<lparr>status_code = 422, content = ''{}'', response_text = ''{}'',
                     parsed_json = Some (PDict [])\<rparr>)
          ''http://localhost:8000'' ''john_doe'' ''secure_password123'') \<noteq>
     Inl (ValueError ''Invalid input data: '' (Text ''Validation error''))"
  by (simp add: register_user_def run_defs)

text \<open>
  Claim C5, amended. For every response with status 422, \<open>register_user\<close>,
  \<open>create_poll\<close>, \<open>fetch_polls\<close> and \<open>vote_on_poll\<close> raise their validation
  \<open>ValueError\<close>: with the sentinel \<open>"Validation error"\<close> as detail when the content is
  empty (zero bytes), and with the parsed body as detail when the content is not empty
  and is valid JSON. \<open>get_poll_results\<close> returns \<open>None\<close> on status 422.
\<close>

theorem validation_error_detail:
  "status_code r = 422 \<Longrightarrow>
     (content r = [] \<longrightarrow>
        snd (register_user (\<lambda>_. Inr r) base_url username password) =
          Inl (ValueError ''Invalid input data: '' (Text ''Validation error''))
      \<and> snd (create_poll (\<lambda>_. Inr r) base_url question options access_token) =
          Inl (ValueError ''Invalid poll data: '' (Text ''Validation error''))
      \<and> snd (fetch_polls (\<lambda>_. Inr r) base_url skip limit) =
          Inl (ValueError ''Invalid pagination parameters: '' (Text ''Validation error''))
      \<and> snd (vote_on_poll (\<lambda>_. Inr r) base_url poll_id option_id access_token) =
          Inl (ValueError ''Invalid vote data: '' (Text ''Validation error'')))
   \<and> (content r \<noteq> [] \<and> parsed_json r = Some v \<longrightarrow>
        snd (register_user (\<lambda>_. Inr r) base_url username password) =
          Inl (ValueError ''Invalid input data: '' (Parsed v))
      \<and> snd (create_poll (\<lambda>_. Inr r) base_url question options access_token) =
          Inl (ValueError ''Invalid poll data: '' (Parsed v))
      \<and> snd (fetch_polls (\<lambda>_. Inr r) base_url skip limit) =
          Inl (ValueError ''Invalid pagination parameters: '' (Parsed v))
      \<and> snd (vote_on_poll (\<lambda>_. Inr r) base_url poll_id option_id access_token) =
          Inl (ValueError ''Invalid vote data: '' (Parsed v)))
   \<and> snd (get_poll_results (\<lambda>_. Inr r) results_base_url results_poll_id token) = Inr PNone"
  by (simp add: register_user_def create_poll_def fetch_polls_def vote_on_poll_def
      get_poll_results_def run_defs Let_def)

theorem validation_error_detail_witness:
  "snd (vote_on_poll
          (\<lambda>_. Inr \<lparr>status_code = 422, content = [], response_text = [],
                     parsed_json = None\<rparr>)
          ''http://localhost:8000'' 1 2 ''token'') =
     Inl (ValueError ''Invalid vote data: '' (Text ''Validation error''))
   \<and> snd (vote_on_poll
          (\<lambda>_. Inr \<lparr>status_code = 422, content = ''[]'', response_text = ''[]'',
                     parsed_json = Some (PList [])\<rparr>)
          ''http://localhost:8000'' 1 2 ''token'') =
     Inl (ValueError ''Invalid vote data: '' (Parsed (PList [])))"
  using validation_error_detail
    [where r = "\<lparr>status_code = 422, content = [], response_text = [],
                parsed_json = None\<rparr>"
       and base_url = "''http://localhost:8000''" and poll_id = 1 and option_id = 2
       and access_token = "''token''"]
    validation_error_detail
    [where r = "\<lparr>status_code = 422, content = ''[]'', response_text = ''[]'',
                parsed_json = Some (PList [])\<rparr>"
       and base_url = "''http://localhost:8000''" and poll_id = 1 and option_id = 2
       and access_token = "''token''" and v = "PList []"]
  by simp

text \<open>
  Claim C3, as stated, fails for \<open>get_poll_results\<close>: a 200 response whose body is the
  JSON object \<open>{"id": 1, "question": "Q"}\<close> lacks three of its required fields, and the
  function returns \<open>None\<close>, not the body.
\<close>

theorem missing_fields_counterexample:
  \<open>snd (get_poll_results
          (\<lambda>_. Inr \<lparr>status_code = 200, content = ''{"id": 1, "question": "Q"}'',
                     response_text = ''{"id": 1, "question": "Q"}'',
                     parsed_json = Some (PDict [(''id'', PInt 1), (''question'', PStr ''Q'')])\<rparr>)
          (PStr ''http://localhost:8000'') (PInt 1) None) = Inr PNone
   \<and> snd (get_poll_results
          (\<lambda>_. Inr \<lparr>status_code = 200, content = ''{"id": 1, "question": "Q"}'',
                     response_text = ''{"id": 1, "question": "Q"}'',
                     parsed_json = Some (PDict [(''id'', PInt 1), (''question'', PStr ''Q'')])\<rparr>)
          (PStr ''http://localhost:8000'') (PInt 1) None) \<noteq>
       Inr (PDict [(''id'', PInt 1), (''question'', PStr ''Q'')])\<close>
  by (simp add: get_poll_results_def run_defs py_or_def)

text \<open>
  Claim C3, amended. For a response with status 200 whose body is a JSON object:
  \<open>register_user\<close> (which requires no field) returns the body; \<open>create_poll\<close> and
  \<open>vote_on_poll\<close> return the body when one or more of their required fields is missing,
  after logging a warning; \<open>get_poll_results\<close> returns \<open>None\<close> when one or more of its
  required fields is missing. \<open>fetch_polls\<close> returns a body that is a list of JSON
  objects as it is, whatever fields the objects have.
\<close>

theorem missing_fields_lenient:
  "status_code r = 200 \<Longrightarrow>
     (parsed_json r = Some (PDict kvs) \<longrightarrow>
        snd (register_user (\<lambda>_. Inr r) base_url username password) = Inr (PDict kvs)
      \<and> (\<not> set [''id'', ''question'', ''created_at'', ''owner_id'', ''options'']
              \<subseteq> set (map fst kvs) \<longrightarrow>
           snd (create_poll (\<lambda>_. Inr r) base_url question options access_token) =
             Inr (PDict kvs)
         \<and> WARNING \<in> set (map fst (fst
             (create_poll (\<lambda>_. Inr r) base_url question options access_token))))
      \<and> (\<not> set [''id'', ''user_id'', ''option_id'', ''created_at'']
              \<subseteq> set (map fst kvs) \<longrightarrow>
           snd (vote_on_poll (\<lambda>_. Inr r) base_url poll_id option_id access_token) =
             Inr (PDict kvs)
         \<and> WARNING \<in> set (map fst (fst
             (vote_on_poll (\<lambda>_. Inr r) base_url poll_id option_id access_token))))
      \<and> (\<not> set [''id'', ''question'', ''options'', ''created_at'', ''user_id'']
              \<subseteq> set (map fst kvs) \<longrightarrow>
           snd (get_poll_results (\<lambda>_. Inr r) results_base_url results_poll_id token) =
             Inr PNone))
   \<and> (parsed_json r = Some (PList polls) \<and> list_all is_dict polls \<longrightarrow>
        snd (fetch_polls (\<lambda>_. Inr r) base_url skip limit) = Inr (PList polls))"
  by (simp add: register_user_def create_poll_def vote_on_poll_def get_poll_results_def
      all_in_dict fetch_polls_list_of_dicts run_defs Let_def)

theorem missing_fields_lenient_witness:
  \<open>snd (create_poll
          (\<lambda>_. Inr \<lparr>status_code = 200, content = ''{"id": 1, "question": "Q"}'',
                     response_text = ''{"id": 1, "question": "Q"}'',
                     parsed_json = Some (PDict [(''id'', PInt 1), (''question'', PStr ''Q'')])\<rparr>)
          ''http://localhost:8000'' ''Q'' [''A'', ''B''] ''token'') =
     Inr (PDict [(''id'', PInt 1), (''question'', PStr ''Q'')])
   \<and> snd (vote_on_poll
          (\<lambda>_. Inr \<lparr>status_code = 200, content = ''{"id": 1, "question": "Q"}'',
                     response_text = ''{"id": 1, "question": "Q"}'',
                     parsed_json = Some (PDict [(''id'', PInt 1), (''question'', PStr ''Q'')])\<rparr>)
          ''http://localhost:8000'' 1 2 ''token'') =
     Inr (PDict [(''id'', PInt 1), (''question'', PStr ''Q'')])
   \<and> snd (fetch_polls
          (\<lambda>_. Inr \<lparr>status_code = 200, content = ''[{"id": 1}]'',
                     response_text = ''[{"id": 1}]'',
                     parsed_json = Some (PList [PDict [(''id'', PInt 1)]])\<rparr>)
          ''http://localhost:8000'' 0 10) = Inr (PList [PDict [(''id'', PInt 1)]])
   \<and> snd (get_poll_results
          (\<lambda>_. Inr \<lparr>status_code = 200, content = ''{"id": 1, "question": "Q"}'',
                     response_text = ''{"id": 1, "question": "Q"}'',
                     parsed_json = Some (PDict [(''id'', PInt 1), (''question'', PStr ''Q'')])\<rparr>)
          (PStr ''http://localhost:8000'') (PInt 1) None) = Inr PNone\<close>
  using missing_fields_lenient
    [where r = \<open>\<lparr>status_code = 200, content = ''{"id": 1, "question": "Q"}'',
                response_text = ''{"id": 1, "question": "Q"}'',
                parsed_json = Some (PDict [(''id'', PInt 1), (''question'', PStr ''Q'')])\<rparr>\<close>
       and kvs = "[(''id'', PInt 1), (''question'', PStr ''Q'')]"
       and base_url = "''http://localhost:8000''" and question = "''Q''"
       and options = "[''A'', ''B'']" and access_token = "''token''"
       and poll_id = 1 and option_id = 2
       and results_base_url = "PStr ''http://localhost:8000''"
       and results_poll_id = "PInt 1" and token = None]
    missing_fields_lenient
    [where r = \<open>\<lparr>status_code = 200, content = ''[{"id": 1}]'',
                response_text = ''[{"id": 1}]'',
                parsed_json = Some (PList [PDict [(''id'', PInt 1)]])\<rparr>\<close>
       and polls = "[PDict [(''id'', PInt 1)]]"
       and base_url = "''http://localhost:8000''" and skip = 0 and limit = 10]
  by simp

text \<open>
  Claim C4, as stated, fails for \<open>get_poll_results\<close>: the body below is a JSON object
  with all five of its required fields, but its one option has no \<open>text\<close>, and the
  function returns \<open>None\<close>, not the body.
\<close>

theorem complete_body_counterexample:
  \<open>snd (get_poll_results
          (\<lambda>_. Inr \<lparr>status_code = 200,
                     content = ''{"id": 1, "question": "Q", "options": [{"id": 1}], "created_at": "2024-01-01T00:00:00Z", "user_id": 5}'',
                     response_text = ''{"id": 1, "question": "Q", "options": [{"id": 1}], "created_at": "2024-01-01T00:00:00Z", "user_id": 5}'',
                     parsed_json = Some (PDict [(''id'', PInt 1), (''question'', PStr ''Q''),
                       (''options'', PList [PDict [(''id'', PInt 1)]]),
                       (''created_at'', PStr ''2024-01-01T00:00:00Z''), (''user_id'', PInt 5)])\<rparr>)
          (PStr ''http://localhost:8000'') (PInt 1) None) = Inr PNone\<close>
  by (simp add: get_poll_results_def all_in_dict run_defs py_or_def)

text \<open>
  Claim C4, amended. For a response with status 200 whose body is a JSON object,
  \<open>register_user\<close> returns exactly that body, and \<open>vote_on_poll\<close> does when the body has
  all its required fields. \<open>create_poll\<close> does when the body has all its required fields
  and the value of \<open>options\<close> is an array, a string or an object. \<open>get_poll_results\<close>,
  called with a positive integer \<open>poll_id\<close> and a non-empty \<open>base_url\<close>, does when the
  body has all its required fields and \<open>options\<close> is a list of objects that each have
  \<open>id\<close> and \<open>text\<close>, and returns \<open>None\<close> when \<open>options\<close> is anything else.
  \<open>fetch_polls\<close> raises \<open>ValueError\<close> on an object body (it expects a list).
\<close>

theorem complete_body_returned_unchanged:
  "status_code r = 200 \<Longrightarrow> parsed_json r = Some (PDict kvs) \<Longrightarrow>
     snd (register_user (\<lambda>_. Inr r) base_url username password) = Inr (PDict kvs)
   \<and> (set [''id'', ''user_id'', ''option_id'', ''created_at''] \<subseteq> set (map fst kvs) \<longrightarrow>
        snd (vote_on_poll (\<lambda>_. Inr r) base_url poll_id option_id access_token) =
          Inr (PDict kvs))
   \<and> (set [''id'', ''question'', ''created_at'', ''owner_id'', ''options'']
           \<subseteq> set (map fst kvs)
        \<and> map_of kvs ''options'' = Some v \<and> (is_list v \<or> is_str v \<or> is_dict v) \<longrightarrow>
        snd (create_poll (\<lambda>_. Inr r) base_url question options access_token) =
          Inr (PDict kvs))
   \<and> (set [''id'', ''question'', ''options'', ''created_at'', ''user_id'']
           \<subseteq> set (map fst kvs)
        \<and> map_of kvs ''options'' = Some (PList os) \<and> \<not> list_ex bad_option os
        \<and> is_int results_poll_id \<and> 0 < int_value results_poll_id \<and> b \<noteq> [] \<longrightarrow>
        snd (get_poll_results (\<lambda>_. Inr r) (PStr b) results_poll_id token) = Inr (PDict kvs))
   \<and> (set [''id'', ''question'', ''options'', ''created_at'', ''user_id'']
           \<subseteq> set (map fst kvs)
        \<and> map_of kvs ''options'' = Some v'
        \<and> (case v' of PList os' \<Rightarrow> list_ex bad_option os' | _ \<Rightarrow> True) \<longrightarrow>
        snd (get_poll_results (\<lambda>_. Inr r) results_base_url results_poll_id token) = Inr PNone)
   \<and> snd (fetch_polls (\<lambda>_. Inr r) base_url skip limit) =
        Inl (ValueError ''Invalid response format: expected list of polls'' (Text []))"
proof (intro conjI impI)
  assume r: "status_code r = 200" "parsed_json r = Some (PDict kvs)"
  show "snd (register_user (\<lambda>_. Inr r) base_url username password) = Inr (PDict kvs)"
    using r by (simp add: register_user_def run_defs)
  show "snd (fetch_polls (\<lambda>_. Inr r) base_url skip limit) =
          Inl (ValueError ''Invalid response format: expected list of polls'' (Text []))"
    using r by (simp add: fetch_polls_def run_defs)
  show "snd (vote_on_poll (\<lambda>_. Inr r) base_url poll_id option_id access_token) =
          Inr (PDict kvs)"
    if "set [''id'', ''user_id'', ''option_id'', ''created_at''] \<subseteq> set (map fst kvs)"
    using r that by (simp add: vote_on_poll_def all_in_dict run_defs)
  show "snd (create_poll (\<lambda>_. Inr r) base_url question options access_token) =
          Inr (PDict kvs)"
    if "set [''id'', ''question'', ''created_at'', ''owner_id'', ''options'']
           \<subseteq> set (map fst kvs)
        \<and> map_of kvs ''options'' = Some v \<and> (is_list v \<or> is_str v \<or> is_dict v)"
    using r that by (cases v) (simp_all add: create_poll_def all_in_dict run_defs)
  show "snd (get_poll_results (\<lambda>_. Inr r) (PStr b) results_poll_id token) = Inr (PDict kvs)"
    if h: "set [''id'', ''question'', ''options'', ''created_at'', ''user_id'']
           \<subseteq> set (map fst kvs)
        \<and> map_of kvs ''options'' = Some (PList os) \<and> \<not> list_ex bad_option os
        \<and> is_int results_poll_id \<and> 0 < int_value results_poll_id \<and> b \<noteq> []"
  proof -
    from h have "''question'' \<in> fst ` set kvs" by simp
    then obtain q where "map_of kvs ''question'' = Some q"
      by (cases "map_of kvs ''question''") (simp_all add: map_of_eq_None_iff)
    with r h show ?thesis
      by (simp add: get_poll_results_def all_in_dict run_defs Let_def py_or_def)
  qed
  show "snd (get_poll_results (\<lambda>_. Inr r) results_base_url results_poll_id token) = Inr PNone"
    if "set [''id'', ''question'', ''options'', ''created_at'', ''user_id'']
           \<subseteq> set (map fst kvs)
        \<and> map_of kvs ''options'' = Some v'
        \<and> (case v' of PList os' \<Rightarrow> list_ex bad_option os' | _ \<Rightarrow> True)"
    using r that
    by (cases v') (simp_all add: get_poll_results_def all_in_dict run_defs Let_def)
qed

theorem complete_body_returned_unchanged_witness:
  \<open>snd (create_poll
          (\<lambda>_. Inr \<lparr>status_code = 200,
                     content = ''{"id":1,"question":"Q","created_at":"2024-01-01T00:00:00Z","owner_id":5,"options":[{"id":1,"text":"A","poll_id":1}]}'',
                     response_text = ''{"id":1,"question":"Q","created_at":"2024-01-01T00:00:00Z","owner_id":5,"options":[{"id":1,"text":"A","poll_id":1}]}'',
                     parsed_json = Some (PDict [(''id'', PInt 1), (''question'', PStr ''Q''),
                       (''created_at'', PStr ''2024-01-01T00:00:00Z''), (''owner_id'', PInt 5),
                       (''options'', PList [PDict [(''id'', PInt 1), (''text'', PStr ''A''),
                                                   (''poll_id'', PInt 1)]])])\<rparr>)
          ''http://localhost:8000'' ''Q'' [''A''] ''token'') =
     Inr (PDict [(''id'', PInt 1), (''question'', PStr ''Q''),
                 (''created_at'', PStr ''2024-01-01T00:00:00Z''), (''owner_id'', PInt 5),
                 (''options'', PList [PDict [(''id'', PInt 1), (''text'', PStr ''A''),
                                             (''poll_id'', PInt 1)]])])
   \<and> snd (vote_on_poll
          (\<lambda>_. Inr \<lparr>status_code = 200,
                     content = ''{"id":7,"user_id":5,"option_id":2,"created_at":"2024-01-01T00:00:00Z"}'',
                     response_text = ''{"id":7,"user_id":5,"option_id":2,"created_at":"2024-01-01T00:00:00Z"}'',
                     parsed_json = Some (PDict [(''id'', PInt 7), (''user_id'', PInt 5),
                       (''option_id'', PInt 2), (''created_at'', PStr ''2024-01-01T00:00:00Z'')])\<rparr>)
          ''http://localhost:8000'' 1 2 ''token'') =
     Inr (PDict [(''id'', PInt 7), (''user_id'', PInt 5), (''option_id'', PInt 2),
                 (''created_at'', PStr ''2024-01-01T00:00:00Z'')])
   \<and> snd (get_poll_results
          (\<lambda>_. Inr \<lparr>status_code = 200,
                     content = ''{"id":1,"question":"Q","options":[{"id":1,"text":"A"}],"created_at":"2024-01-01T00:00:00Z","user_id":5}'',
                     response_text = ''{"id":1,"question":"Q","options":[{"id":1,"text":"A"}],"created_at":"2024-01-01T00:00:00Z","user_id":5}'',
                     parsed_json = Some (PDict [(''id'', PInt 1), (''question'', PStr ''Q''),
                       (''options'', PList [PDict [(''id'', PInt 1), (''text'', PStr ''A'')]]),
                       (''created_at'', PStr ''2024-01-01T00:00:00Z''), (''user_id'', PInt 5)])\<rparr>)
          (PStr ''http://localhost:8000'') (PInt 1) None) =
     Inr (PDict [(''id'', PInt 1), (''question'', PStr ''Q''),
                 (''options'', PList [PDict [(''id'', PInt 1), (''text'', PStr ''A'')]]),
                 (''created_at'', PStr ''2024-01-01T00:00:00Z''), (''user_id'', PInt 5)])
   \<and> snd (get_poll_results
          (\<lambda>_. Inr \<lparr>status_code = 200,
                     content = ''{"id":1,"question":"Q","options":"A,B","created_at":"2024-01-01T00:00:00Z","user_id":5}'',
                     response_text = ''{"id":1,"question":"Q","options":"A,B","created_at":"2024-01-01T00:00:00Z","user_id":5}'',
                     parsed_json = Some (PDict [(''id'', PInt 1), (''question'', PStr ''Q''),
                       (''options'', PStr ''A,B''),
                       (''created_at'', PStr ''2024-01-01T00:00:00Z''), (''user_id'', PInt 5)])\<rparr>)
          (PStr ''http://localhost:8000'') (PInt 1) None) = Inr PNone\<close>
  using complete_body_returned_unchanged
    [where r = \<open>\<lparr>status_code = 200,
                content = ''{"id":1,"question":"Q","options":"A,B","created_at":"2024-01-01T00:00:00Z","user_id":5}'',
                response_text = ''{"id":1,"question":"Q","options":"A,B","created_at":"2024-01-01T00:00:00Z","user_id":5}'',
                parsed_json = Some (PDict [(''id'', PInt 1), (''question'', PStr ''Q''),
                  (''options'', PStr ''A,B''),
                  (''created_at'', PStr ''2024-01-01T00:00:00Z''), (''user_id'', PInt 5)])\<rparr>\<close>
       and kvs = "[(''id'', PInt 1), (''question'', PStr ''Q''), (''options'', PStr ''A,B''),
                  (''created_at'', PStr ''2024-01-01T00:00:00Z''), (''user_id'', PInt 5)]"
       and v' = "PStr ''A,B''"
       and results_base_url = "PStr ''http://localhost:8000''"
       and results_poll_id = "PInt 1" and token = None]
    complete_body_returned_unchanged
    [where r = \<open>\<lparr>status_code = 200,
                content = ''{"id":1,"question":"Q","created_at":"2024-01-01T00:00:00Z","owner_id":5,"options":[{"id":1,"text":"A","poll_id":1}]}'',
                response_text = ''{"id":1,"question":"Q","created_at":"2024-01-01T00:00:00Z","owner_id":5,"options":[{"id":1,"text":"A","poll_id":1}]}'',
                parsed_json = Some (PDict [(''id'', PInt 1), (''question'', PStr ''Q''),
                  (''created_at'', PStr ''2024-01-01T00:00:00Z''), (''owner_id'', PInt 5),
                  (''options'', PList [PDict [(''id'', PInt 1), (''text'', PStr ''A''),
                                              (''poll_id'', PInt 1)]])])\<rparr>\<close>
       and kvs = "[(''id'', PInt 1), (''question'', PStr ''Q''),
                  (''created_at'', PStr ''2024-01-01T00:00:00Z''), (''owner_id'', PInt 5),
                  (''options'', PList [PDict [(''id'', PInt 1), (''text'', PStr ''A''),
                                              (''poll_id'', PInt 1)]])]"
       and v = "PList [PDict [(''id'', PInt 1), (''text'', PStr ''A''), (''poll_id'', PInt 1)]]"
       and base_url = "''http://localhost:8000''" and question = "''Q''"
       and options = "[''A'']" and access_token = "''token''"]
    complete_body_returned_unchanged
    [where r = \<open>\<lparr>status_code = 200,
                content = ''{"id":7,"user_id":5,"option_id":2,"created_at":"2024-01-01T00:00:00Z"}'',
                response_text = ''{"id":7,"user_id":5,"option_id":2,"created_at":"2024-01-01T00:00:00Z"}'',
                parsed_json = Some (PDict [(''id'', PInt 7), (''user_id'', PInt 5),
                  (''option_id'', PInt 2), (''created_at'', PStr ''2024-01-01T00:00:00Z'')])\<rparr>\<close>
       and kvs = "[(''id'', PInt 7), (''user_id'', PInt 5), (''option_id'', PInt 2),
                  (''created_at'', PStr ''2024-01-01T00:00:00Z'')]"
       and base_url = "''http://localhost:8000''" and poll_id = 1 and option_id = 2
       and access_token = "''token''"]
    complete_body_returned_unchanged
    [where r = \<open>\<lparr>status_code = 200,
                content = ''{"id":1,"question":"Q","options":[{"id":1,"text":"A"}],"created_at":"2024-01-01T00:00:00Z","user_id":5}'',
                response_text = ''{"id":1,"question":"Q","options":[{"id":1,"text":"A"}],"created_at":"2024-01-01T00:00:00Z","user_id":5}'',
                parsed_json = Some (PDict [(''id'', PInt 1), (''question'', PStr ''Q''),
                  (''options'', PList [PDict [(''id'', PInt 1), (''text'', PStr ''A'')]]),
                  (''created_at'', PStr ''2024-01-01T00:00:00Z''), (''user_id'', PInt 5)])\<rparr>\<close>
       and kvs = "[(''id'', PInt 1), (''question'', PStr ''Q''),
                  (''options'', PList [PDict [(''id'', PInt 1), (''text'', PStr ''A'')]]),
                  (''created_at'', PStr ''2024-01-01T00:00:00Z''), (''user_id'', PInt 5)]"
       and os = "[PDict [(''id'', PInt 1), (''text'', PStr ''A'')]]"
       and b = "''http://localhost:8000''" and results_poll_id = "PInt 1" and token = None]
  by (simp add: py_or_def)



text \<open>
  \<open>get_poll_results\<close> builds its URL only after it has accepted \<open>base_url\<close> as a
  non-empty string; for such a \<open>base_url\<close> its outcome is the same on the two.
\<close>

lemma get_poll_results_trailing_slashes:
  "b \<noteq> [] \<Longrightarrow>
   snd (get_poll_results send (PStr (b @ replicate n CHR ''/'')) poll_id token) =
   snd (get_poll_results send (PStr b) poll_id token)"
  by (simp add: get_poll_results_def get_poll_results_url_def rstrip_append_replicate)

text \<open>
  Claim C1. The claim holds of the code except on one path: a 200 response whose body
  is valid JSON but not an object. \<open>register_user\<close> calls \<open>user_data.get\<close> on the decoded
  value without testing its type; on the body \<open>null\<close> the call raises
  \<open>AttributeError\<close>, which no handler catches. The function neither returns a value nor
  raises one of its two failure types (\<open>ValueError\<close>, \<open>RequestException\<close>).
\<close>

theorem register_user_200_null_body:
  "register_user
     (\<lambda>_. Inr \<lparr>status_code = 200, content = ''null'', response_text = ''null'',
                parsed_json = Some PNone\<rparr>)
     ''http://localhost:8000'' ''john_doe'' ''secure_password123'' =
   ([(INFO, ''POST {url} - Status: {response.status_code}'')], Inl AttributeError)"
  by (simp add: register_user_def run_defs)

text \<open>
  On the other in-band codes the four raising functions do produce a typed failure: for
  400, 401, 404, 422 and 500 the outcome is a raised \<open>ValueError\<close> or
  \<open>RequestException\<close>, never a returned value.
\<close>

lemma error_codes_raise_typed_failure:
  assumes "status_code r \<in> {400, 401, 404, 422, 500}"
  shows "\<exists>e. snd (register_user (\<lambda>_. Inr r) base_url username password) = Inl e
             \<and> (is_ValueError e \<or> is_RequestException e)"
    and "\<exists>e. snd (create_poll (\<lambda>_. Inr r) base_url question options access_token) = Inl e
             \<and> (is_ValueError e \<or> is_RequestException e)"
    and "\<exists>e. snd (fetch_polls (\<lambda>_. Inr r) base_url skip limit) = Inl e
             \<and> (is_ValueError e \<or> is_RequestException e)"
    and "\<exists>e. snd (vote_on_poll (\<lambda>_. Inr r) base_url poll_id option_id access_token) = Inl e
             \<and> (is_ValueError e \<or> is_RequestException e)"
  using assms
  by (cases "parsed_json r";
      auto simp add: register_user_def create_poll_def fetch_polls_def vote_on_poll_def
        run_defs)+

text \<open>
  Claim C10. \<open>get_poll_results\<close> returns \<open>None\<close> on every failure path the claim lists,
  but it does raise on a 200 response whose body is valid JSON of a type that does not
  support \<open>in\<close>: on the body \<open>null\<close> the test \<open>field in poll_data\<close> raises
  \<open>TypeError\<close>, which is neither a \<open>ValueError\<close> nor a \<open>RequestException\<close>, so no
  handler catches it.
\<close>

theorem get_poll_results_200_null_body:
  "get_poll_results
     (\<lambda>_. Inr \<lparr>status_code = 200, content = ''null'', response_text = ''null'',
                parsed_json = Some PNone\<rparr>)
     (PStr ''http://localhost:8000'') (PInt 1) None =
   ([(INFO, ''Retrieving poll results for poll_id: {poll_id}''),
     (INFO, ''Request URL: {url}''),
     (INFO, ''Response status code: {response.status_code}'')], Inl TypeError)"
  by (simp add: get_poll_results_def run_defs py_or_def)

text \<open>
  The failure paths that the claim lists do return \<open>None\<close>: invalid arguments (for every
  transport, so without a request), every status other than 200, a 200 body that is
  not JSON, and every transport error that is a \<open>RequestException\<close>.
\<close>

lemma get_poll_results_invalid_poll_id:
  "\<not> is_int poll_id \<or> int_value poll_id \<le> 0 \<Longrightarrow>
   get_poll_results send base_url poll_id token =
     ([(ERROR, ''Invalid poll_id: {poll_id}. Must be a positive integer.'')], Inr PNone)"
  by (auto simp add: get_poll_results_def run_defs py_or_def)

lemma get_poll_results_invalid_base_url:
  "is_int poll_id \<Longrightarrow> 0 < int_value poll_id \<Longrightarrow> \<not> truthy base_url \<or> \<not> is_str base_url \<Longrightarrow>
   get_poll_results send base_url poll_id token =
     ([(ERROR, ''Invalid base_url: {base_url}. Must be a non-empty string.'')], Inr PNone)"
  by (auto simp add: get_poll_results_def run_defs py_or_def)

lemma get_poll_results_non_200:
  "status_code r \<noteq> 200 \<Longrightarrow>
   snd (get_poll_results (\<lambda>_. Inr r) base_url poll_id token) = Inr PNone"
  by (simp add: get_poll_results_def run_defs Let_def)

lemma get_poll_results_transport_error:
  "is_RequestException e \<Longrightarrow>
   snd (get_poll_results (\<lambda>_. Inl e) base_url poll_id token) = Inr PNone"
  by (simp add: get_poll_results_def run_defs Let_def)

end
